theory Spec2Isabelle
  imports Main "HOL-Library.Sublist"
begin

section \<open>AgentSmith: a user-agent generator over a JSON catalog\<close>

text \<open>
  A shallow embedding of \<^verbatim>\<open>src/AgentSmith.py\<close>. Every Python function of the file
  is a HOL function of the same name. A raised exception is the \<open>Inl\<close> side of a sum,
  a returned value the \<open>Inr\<close> side. The pseudo-random draws of \<^verbatim>\<open>random.choice\<close>
  and the state of the file system are inputs of the model.
\<close>

subsection \<open>Python values\<close>

text \<open>
  What \<^verbatim>\<open>json.load\<close> can return: \<^verbatim>\<open>None\<close>, a bool, an int, a float, a str, a list
  or a dict with string keys. A float is either \<open>m * 2 ^ e\<close> for integers \<open>m\<close> and
  \<open>e\<close>, an infinity or a NaN (\<^verbatim>\<open>json.load\<close> accepts \<^verbatim>\<open>Infinity\<close> and \<^verbatim>\<open>NaN\<close>).
  A dict is an association list in insertion order, looked up with \<open>map_of\<close>.
  A \<open>char\<close> stands for one character of a Python str.
\<close>

datatype pyfloat = Finite int int | PosInfinity | NegInfinity | NaN

datatype json =
    JNull
  | JBool bool
  | JInt int
  | JFloat pyfloat
  | JStr string
  | JList "json list"
  | JDict "(string \<times> json) list"

text \<open>
  The exception classes. The first five are the classes the file declares: the base
  class \<^verbatim>\<open>UserAgentError\<close> and its four subclasses (the file's own
  \<^verbatim>\<open>FileNotFoundError\<close> shadows the built-in one). The others are built-in classes
  of Python, all subclasses of \<^verbatim>\<open>Exception\<close> and none of \<^verbatim>\<open>UserAgentError\<close>;
  \<open>OtherException\<close> stands for any further such class (\<^verbatim>\<open>UnicodeDecodeError\<close>,
  \<^verbatim>\<open>RecursionError\<close>, ...). The message an exception carries is not modelled, only
  its class.
\<close>

datatype exn =
    UserAgentError
  | InvalidJSONFormatError
  | FileNotFoundError
  | EmptyDataError
  | InvalidUserAgentError
  | PermissionError
  | JSONDecodeError
  | OSError
  | TypeError
  | KeyError
  | AttributeError
  | IndexError
  | OtherException

text \<open>\<^verbatim>\<open>isinstance(e, UserAgentError)\<close>: the base class or one of its subclasses.\<close>

fun is_UserAgentError :: "exn \<Rightarrow> bool" where
  "is_UserAgentError UserAgentError = True"
| "is_UserAgentError InvalidJSONFormatError = True"
| "is_UserAgentError FileNotFoundError = True"
| "is_UserAgentError EmptyDataError = True"
| "is_UserAgentError InvalidUserAgentError = True"
| "is_UserAgentError _ = False"

text \<open>Sequencing: an exception of the first step skips the rest.\<close>

definition and_then :: "exn + 'a \<Rightarrow> ('a \<Rightarrow> exn + 'b) \<Rightarrow> exn + 'b" where
  "and_then r f = (case r of Inl e \<Rightarrow> Inl e | Inr v \<Rightarrow> f v)"

text \<open>
  The handler that closes \<^verbatim>\<open>load_user_agents\<close> and \<^verbatim>\<open>generate_user_agent\<close>:
  \<^verbatim>\<open>
  except Exception as e:
      if isinstance(e, UserAgentError): raise
      else: raise UserAgentError(...)
  \<close>
\<close>

definition reraise :: "exn + 'a \<Rightarrow> exn + 'a" where
  "reraise r =
     (case r of
        Inl e \<Rightarrow> if is_UserAgentError e then Inl e else Inl UserAgentError
      | Inr v \<Rightarrow> Inr v)"

subsection \<open>Built-in operations of Python the file uses\<close>

text \<open>\<^verbatim>\<open>bool(v)\<close>, the truth value the \<^verbatim>\<open>if\<close>, \<^verbatim>\<open>not\<close> and \<^verbatim>\<open>and\<close> of Python test.\<close>

fun truthy :: "json \<Rightarrow> bool" where
  "truthy JNull = False"
| "truthy (JBool b) = b"
| "truthy (JInt i) = (i \<noteq> 0)"
| "truthy (JFloat (Finite m e)) = (m \<noteq> 0)"
| "truthy (JFloat _) = True"
| "truthy (JStr s) = (s \<noteq> [])"
| "truthy (JList xs) = (xs \<noteq> [])"
| "truthy (JDict kvs) = (kvs \<noteq> [])"

fun is_dict :: "json \<Rightarrow> bool" where
  "is_dict (JDict kvs) = True"
| "is_dict _ = False"

fun is_list :: "json \<Rightarrow> bool" where
  "is_list (JList xs) = True"
| "is_list _ = False"

text \<open>\<^verbatim>\<open>key in d\<close> and \<^verbatim>\<open>d.get(key)\<close> of a dict.\<close>

definition has_key :: "(string \<times> json) list \<Rightarrow> string \<Rightarrow> bool" where
  "has_key kvs k = (map_of kvs k \<noteq> None)"

definition dict_get :: "(string \<times> json) list \<Rightarrow> string \<Rightarrow> json" where
  "dict_get kvs k = (case map_of kvs k of None \<Rightarrow> JNull | Some v \<Rightarrow> v)"

text \<open>
  \<^verbatim>\<open>key in v\<close> where the code has established \<^verbatim>\<open>isinstance(v, dict)\<close> before
  (the \<^verbatim>\<open>or\<close> of line 145 evaluates it for a dict only), and the elements of a
  value the code has established to be a list.
\<close>

fun key_in :: "string \<Rightarrow> json \<Rightarrow> bool" where
  "key_in k (JDict kvs) = has_key kvs k"
| "key_in k _ = False"

fun items_of :: "json \<Rightarrow> json list" where
  "items_of (JList xs) = xs"
| "items_of _ = []"

text \<open>
  \<^verbatim>\<open>v.get(key)\<close> on any value: only a dict has the method, every other value raises
  \<^verbatim>\<open>AttributeError\<close>.
\<close>

fun py_get :: "json \<Rightarrow> string \<Rightarrow> exn + json" where
  "py_get (JDict kvs) k = Inr (dict_get kvs k)"
| "py_get _ k = Inl AttributeError"

text \<open>
  \<^verbatim>\<open>v[key]\<close> with a string key: a dict without the key raises \<^verbatim>\<open>KeyError\<close>, a value
  of any other type raises \<^verbatim>\<open>TypeError\<close>.
\<close>

fun subscript :: "json \<Rightarrow> string \<Rightarrow> exn + json" where
  "subscript (JDict kvs) k = (case map_of kvs k of None \<Rightarrow> Inl KeyError | Some v \<Rightarrow> Inr v)"
| "subscript _ k = Inl TypeError"

text \<open>
  \<^verbatim>\<open>for x in v\<close>: a list gives its elements, a str its characters (each a str of
  length one), a dict its keys; every other value raises \<^verbatim>\<open>TypeError\<close>.
\<close>

fun py_iter :: "json \<Rightarrow> exn + json list" where
  "py_iter (JList xs) = Inr xs"
| "py_iter (JStr s) = Inr (map (\<lambda>c. JStr [c]) s)"
| "py_iter (JDict kvs) = Inr (map (\<lambda>kv. JStr (fst kv)) kvs)"
| "py_iter _ = Inl TypeError"

text \<open>
  \<^verbatim>\<open>random.choice(seq)\<close> returns \<^verbatim>\<open>seq[k]\<close> for a pseudo-random \<open>k < len(seq)\<close> and
  raises \<^verbatim>\<open>IndexError\<close> on an empty sequence. The model is given the draw \<open>r\<close> and
  takes \<open>k = r mod len(seq)\<close>: every draw picks an element and every element is
  picked by some draw.
\<close>

definition random_choice :: "nat \<Rightarrow> 'a list \<Rightarrow> exn + 'a" where
  "random_choice r xs = (if xs = [] then Inl IndexError else Inr (xs ! (r mod length xs)))"

text \<open>
  \<^verbatim>\<open>random.choice\<close> on a value of the catalog. The file applies it to lists only
  (each call is guarded by \<^verbatim>\<open>isinstance(..., list)\<close>); a str is a sequence of its
  characters, a dict of the catalog has no integer key, every other value has no
  length.
\<close>

fun choice_of :: "nat \<Rightarrow> json \<Rightarrow> exn + json" where
  "choice_of r (JList xs) = random_choice r xs"
| "choice_of r (JStr s) = random_choice r (map (\<lambda>c. JStr [c]) s)"
| "choice_of r (JDict kvs) = (if kvs = [] then Inl IndexError else Inl KeyError)"
| "choice_of r _ = Inl TypeError"

text \<open>\<^verbatim>\<open>s.startswith(p)\<close>, \<^verbatim>\<open>s.count(c)\<close> for one character, \<^verbatim>\<open>p in s\<close> and
  \<^verbatim>\<open>s.replace(a, b)\<close> for single characters.\<close>

definition startswith :: "string \<Rightarrow> string \<Rightarrow> bool" where
  "startswith s p = (take (length p) s = p)"

fun str_count :: "string \<Rightarrow> char \<Rightarrow> nat" where
  "str_count [] c = 0"
| "str_count (x # xs) c = (if x = c then Suc (str_count xs c) else str_count xs c)"

fun contains :: "string \<Rightarrow> string \<Rightarrow> bool" where
  "contains [] p = (p = [])"
| "contains (x # xs) p = (startswith (x # xs) p \<or> contains xs p)"

definition replace_char :: "string \<Rightarrow> char \<Rightarrow> char \<Rightarrow> string" where
  "replace_char s a b = map (\<lambda>c. if c = a then b else c) s"

subsection \<open>get_os_string (lines 95 to 114)\<close>

text \<open>The body of the \<^verbatim>\<open>try\<close>: a \<^verbatim>\<open>TypeError\<close> unless both arguments are strings.\<close>

fun get_os_string_body :: "json \<Rightarrow> json \<Rightarrow> exn + string" where
  "get_os_string_body (JStr os_name) (JStr os_version) =
     (if os_name = ''Windows'' then
        Inr (''Windows NT '' @ os_version @ ''; Win64; x64'')
      else if os_name = ''Mac OS'' then
        (if contains os_version ''_'' then
           Inr (''Macintosh; Intel Mac OS X '' @ os_version)
         else
           Inr (''Macintosh; Intel Mac OS X '' @ replace_char os_version CHR ''.'' CHR ''_''))
      else if os_name = ''Linux'' then
        Inr (''X11; Linux '' @ os_version)
      else
        Inr (os_name @ '' '' @ os_version))"
| "get_os_string_body _ _ = Inl TypeError"

text \<open>The handler: \<^verbatim>\<open>except Exception as e: raise UserAgentError(...)\<close>.\<close>

definition get_os_string :: "json \<Rightarrow> json \<Rightarrow> exn + string" where
  "get_os_string os_name os_version =
     (case get_os_string_body os_name os_version of
        Inl e \<Rightarrow> Inl UserAgentError
      | Inr s \<Rightarrow> Inr s)"

subsection \<open>validate_user_agent (lines 116 to 140)\<close>

definition browser_patterns :: "string list" where
  "browser_patterns = [''Chrome'', ''Firefox'', ''Safari'', ''Edg'']"

definition os_patterns :: "string list" where
  "os_patterns = [''Windows'', ''Mac OS X'', ''Linux'', ''X11'']"

definition validate_user_agent :: "string \<Rightarrow> bool" where
  "validate_user_agent user_agent =
     (if \<not> startswith user_agent ''Mozilla/5.0'' then False
      else if str_count user_agent CHR ''('' \<noteq> str_count user_agent CHR '')'' then False
      else if length user_agent < 30 then False
      else if \<not> list_ex (\<lambda>pattern. contains user_agent pattern) browser_patterns then False
      else if \<not> list_ex (\<lambda>pattern. contains user_agent pattern) os_patterns then False
      else True)"

subsection \<open>validate_json_structure (lines 27 to 64)\<close>

text \<open>\<^verbatim>\<open>not isinstance(v, list) or len(v) == 0\<close>.\<close>

fun empty_or_not_list :: "json \<Rightarrow> bool" where
  "empty_or_not_list (JList xs) = (xs = [])"
| "empty_or_not_list _ = True"

definition required_fields :: "string list" where
  "required_fields = [''name'', ''versions'', ''os'']"

text \<open>The inner loop over \<^verbatim>\<open>browser["os"]\<close> (lines 56 to 64).\<close>

fun validate_os_entries :: "json list \<Rightarrow> exn + unit" where
  "validate_os_entries [] = Inr ()"
| "validate_os_entries (os_info # rest) =
     (case os_info of
        JDict kvs \<Rightarrow>
          if \<not> has_key kvs ''name'' then Inl InvalidJSONFormatError
          else if \<not> has_key kvs ''versions'' \<or> empty_or_not_list (dict_get kvs ''versions'')
            then Inl InvalidJSONFormatError
          else validate_os_entries rest
      | _ \<Rightarrow> Inl InvalidJSONFormatError)"

text \<open>The outer loop over \<^verbatim>\<open>data["browsers"]\<close> (lines 38 to 64).\<close>

fun validate_browsers :: "json list \<Rightarrow> exn + unit" where
  "validate_browsers [] = Inr ()"
| "validate_browsers (browser # rest) =
     (case browser of
        JDict kvs \<Rightarrow>
          if \<not> list_all (\<lambda>field. has_key kvs field) required_fields
            then Inl InvalidJSONFormatError
          else if empty_or_not_list (dict_get kvs ''versions'') then Inl InvalidJSONFormatError
          else if empty_or_not_list (dict_get kvs ''os'') then Inl InvalidJSONFormatError
          else
            (case validate_os_entries (items_of (dict_get kvs ''os'')) of
               Inl e \<Rightarrow> Inl e
             | Inr u \<Rightarrow> validate_browsers rest)
      | _ \<Rightarrow> Inl InvalidJSONFormatError)"

definition validate_json_structure :: "json \<Rightarrow> exn + unit" where
  "validate_json_structure data =
     (case data of
        JDict kvs \<Rightarrow>
          if \<not> has_key kvs ''browsers'' then Inl InvalidJSONFormatError
          else if empty_or_not_list (dict_get kvs ''browsers'') then Inl InvalidJSONFormatError
          else validate_browsers (items_of (dict_get kvs ''browsers''))
      | _ \<Rightarrow> Inl InvalidJSONFormatError)"

subsection \<open>load_user_agents (lines 66 to 93)\<close>

text \<open>
  What the file system answers for a path: \<^verbatim>\<open>os.path.exists\<close>, \<^verbatim>\<open>os.access(..., os.R_OK)\<close>,
  and the outcome of \<^verbatim>\<open>open\<close> followed by \<^verbatim>\<open>json.load\<close>: the parsed value, or the
  exception one of the two raised (\<open>JSONDecodeError\<close> when the text is not JSON).
\<close>

record file_state =
  path_exists :: bool
  readable :: bool
  loaded :: "exn + json"

text \<open>The body of the \<^verbatim>\<open>try\<close> (lines 69 to 87).\<close>

definition load_user_agents_body :: "(string \<Rightarrow> file_state) \<Rightarrow> string \<Rightarrow> exn + json" where
  "load_user_agents_body fs json_file =
     (if \<not> path_exists (fs json_file) then Inl FileNotFoundError
      else if \<not> readable (fs json_file) then Inl PermissionError
      else
        and_then
          (case loaded (fs json_file) of
             Inl e \<Rightarrow> if e = JSONDecodeError then Inl InvalidJSONFormatError else Inl e
           | Inr data \<Rightarrow> Inr data)
          (\<lambda>data. and_then (validate_json_structure data) (\<lambda>u. Inr data)))"

definition load_user_agents :: "(string \<Rightarrow> file_state) \<Rightarrow> string \<Rightarrow> exn + json" where
  "load_user_agents fs json_file = reraise (load_user_agents_body fs json_file)"

subsection \<open>generate_user_agent (lines 142 to 201)\<close>

text \<open>The four draws of one run, in the order the code makes them.\<close>

record draws =
  browser_draw :: nat
  version_draw :: nat
  os_draw :: nat
  os_version_draw :: nat

text \<open>
  The first list comprehension (lines 152 to 155). \<^verbatim>\<open>browser.get\<close> raises
  \<^verbatim>\<open>AttributeError\<close> at the first element that is not a dict.
\<close>

fun feasible_browsers :: "json list \<Rightarrow> exn + json list" where
  "feasible_browsers [] = Inr []"
| "feasible_browsers (browser # rest) =
     and_then (py_get browser ''os'') (\<lambda>os_value.
     and_then (py_get browser ''versions'') (\<lambda>versions.
     and_then (feasible_browsers rest) (\<lambda>others.
       Inr (if truthy os_value \<and> is_list versions \<and> truthy versions
            then browser # others else others))))"

text \<open>The second list comprehension (lines 166 to 169).\<close>

fun feasible_os :: "json list \<Rightarrow> exn + json list" where
  "feasible_os [] = Inr []"
| "feasible_os (os_info # rest) =
     and_then (py_get os_info ''versions'') (\<lambda>versions.
     and_then (feasible_os rest) (\<lambda>others.
       Inr (if truthy versions \<and> is_list versions \<and> truthy versions
            then os_info # others else others)))"

text \<open>
  Lines 145 to 177: the checks on \<^verbatim>\<open>data\<close>, the two filters and the four draws. The
  result is the selection \<open>(browser_name, browser_version, os_name, os_version)\<close>.
\<close>

definition select_entries :: "draws \<Rightarrow> json \<Rightarrow> exn + (json \<times> json \<times> json \<times> json)" where
  "select_entries rnd data =
     (if \<not> truthy data \<or> \<not> is_dict data \<or> \<not> key_in ''browsers'' data
        then Inl EmptyDataError
      else
        and_then (subscript data ''browsers'') (\<lambda>browsers.
        if \<not> truthy browsers then Inl EmptyDataError
        else
          and_then (py_iter browsers) (\<lambda>items.
          and_then (feasible_browsers items) (\<lambda>feasible.
          if feasible = [] then Inl EmptyDataError
          else
            and_then (random_choice (browser_draw rnd) feasible) (\<lambda>browser.
            and_then (subscript browser ''name'') (\<lambda>browser_name.
            and_then (subscript browser ''versions'') (\<lambda>versions.
            and_then (choice_of (version_draw rnd) versions) (\<lambda>browser_version.
            and_then (subscript browser ''os'') (\<lambda>os_value.
            and_then (py_iter os_value) (\<lambda>os_items.
            and_then (feasible_os os_items) (\<lambda>os_feasible.
            if os_feasible = [] then Inl EmptyDataError
            else
              and_then (random_choice (os_draw rnd) os_feasible) (\<lambda>os_info.
              and_then (subscript os_info ''name'') (\<lambda>os_name.
              and_then (subscript os_info ''versions'') (\<lambda>os_versions.
              and_then (choice_of (os_version_draw rnd) os_versions) (\<lambda>os_version.
                Inr (browser_name, browser_version, os_name, os_version))))))))))))))))"

text \<open>
  What an f-string writes for \<^verbatim>\<open>{v}\<close>: a str as it is, any other value as
  \<^verbatim>\<open>str(v)\<close>. Python's \<^verbatim>\<open>str\<close> of a value that is not a str is the parameter
  \<open>str_of\<close>; it never raises on a value of the catalog.
\<close>

definition format_value :: "(json \<Rightarrow> string) \<Rightarrow> json \<Rightarrow> string" where
  "format_value str_of v = (case v of JStr s \<Rightarrow> s | _ \<Rightarrow> str_of v)"

text \<open>
  Lines 180 to 189: the template of the browser. Every branch calls
  \<^verbatim>\<open>get_os_string(os_name, os_version)\<close>, the one step of the f-string that can
  raise.
\<close>

definition format_user_agent ::
  "(json \<Rightarrow> string) \<Rightarrow> json \<Rightarrow> json \<Rightarrow> json \<Rightarrow> json \<Rightarrow> exn + string" where
  "format_user_agent str_of browser_name browser_version os_name os_version =
     and_then (get_os_string os_name os_version) (\<lambda>os_string.
       if browser_name = JStr ''Chrome'' then
         Inr (''Mozilla/5.0 ('' @ os_string @ '') AppleWebKit/537.36 (KHTML, like Gecko) Chrome/''
              @ format_value str_of browser_version @ '' Safari/537.36'')
       else if browser_name = JStr ''Firefox'' then
         Inr (''Mozilla/5.0 ('' @ os_string @ ''; rv:'' @ format_value str_of browser_version
              @ '') Gecko/20100101 Firefox/'' @ format_value str_of browser_version)
       else if browser_name = JStr ''Safari'' then
         Inr (''Mozilla/5.0 ('' @ os_string @ '') AppleWebKit/605.1.15 (KHTML, like Gecko) Version/''
              @ format_value str_of browser_version @ '' Safari/605.1.15'')
       else if browser_name = JStr ''Edge'' then
         Inr (''Mozilla/5.0 ('' @ os_string @ '') AppleWebKit/537.36 (KHTML, like Gecko) Edg/''
              @ format_value str_of browser_version)
       else
         Inr (''Mozilla/5.0 ('' @ os_string @ '') AppleWebKit/537.36 (KHTML, like Gecko) ''
              @ format_value str_of browser_name @ ''/'' @ format_value str_of browser_version))"

text \<open>The body of the \<^verbatim>\<open>try\<close> (lines 145 to 195).\<close>

definition generate_user_agent_body :: "(json \<Rightarrow> string) \<Rightarrow> draws \<Rightarrow> json \<Rightarrow> exn + string" where
  "generate_user_agent_body str_of rnd data =
     and_then (select_entries rnd data) (\<lambda>(browser_name, browser_version, os_name, os_version).
     and_then (format_user_agent str_of browser_name browser_version os_name os_version)
       (\<lambda>user_agent.
          if \<not> validate_user_agent user_agent then Inl InvalidUserAgentError
          else Inr user_agent))"

definition generate_user_agent :: "(json \<Rightarrow> string) \<Rightarrow> draws \<Rightarrow> json \<Rightarrow> exn + string" where
  "generate_user_agent str_of rnd data = reraise (generate_user_agent_body str_of rnd data)"

subsection \<open>Notions the properties are stated with\<close>

text \<open>
  The underscore form of a version: every \<open>.\<close> replaced by \<open>_\<close>, as the
  specification words the normalisation of a Mac OS version.
\<close>

definition underscore_form :: "string \<Rightarrow> string" where
  "underscore_form v = map (\<lambda>c. if c = CHR ''.'' then CHR ''_'' else c) v"

text \<open>A str with as many \<open>(\<close> as \<open>)\<close>.\<close>

fun balanced_str :: "json \<Rightarrow> bool" where
  "balanced_str (JStr v) = (str_count v CHR ''('' = str_count v CHR '')'')"
| "balanced_str _ = False"

text \<open>
  A selection the templates know: one of the four browser names with a template of its
  own, one of the three OS names \<^verbatim>\<open>get_os_string\<close> knows, a browser version
  whose text has as many \<open>(\<close> as \<open>)\<close>, and an OS version that is such a str.
\<close>

definition recognised :: "(json \<Rightarrow> string) \<Rightarrow> json \<times> json \<times> json \<times> json \<Rightarrow> bool" where
  "recognised str_of sel =
     (case sel of (browser_name, browser_version, os_name, os_version) \<Rightarrow>
        browser_name \<in> set [JStr ''Chrome'', JStr ''Firefox'', JStr ''Safari'', JStr ''Edge'']
        \<and> os_name \<in> set [JStr ''Windows'', JStr ''Mac OS'', JStr ''Linux'']
        \<and> balanced_str (JStr (format_value str_of browser_version))
        \<and> balanced_str os_version)"

text \<open>
  What \<^verbatim>\<open>validate_json_structure\<close> accepts, entry by entry: an OS entry is a dict
  with a name and a non-empty list of versions; a browser is a dict with a name, a
  non-empty list of versions and a non-empty list of such OS entries.
\<close>

fun os_entry_ok :: "json \<Rightarrow> bool" where
  "os_entry_ok (JDict kvs) =
     (has_key kvs ''name'' \<and> \<not> empty_or_not_list (dict_get kvs ''versions''))"
| "os_entry_ok _ = False"

fun browser_ok :: "json \<Rightarrow> bool" where
  "browser_ok (JDict kvs) =
     (has_key kvs ''name''
      \<and> \<not> empty_or_not_list (dict_get kvs ''versions'')
      \<and> \<not> empty_or_not_list (dict_get kvs ''os'')
      \<and> list_all os_entry_ok (items_of (dict_get kvs ''os'')))"
| "browser_ok _ = False"

text \<open>
  Inputs of the examples: a catalog with Chrome 116.0 on Windows 10.0 alone, the same
  catalog with a browser named Opera, a run whose four draws are 0, a file that exists
  and cannot be read, and a str function that writes nothing (no example formats a
  value that is not a str).
\<close>

definition chrome_catalog :: json where
  "chrome_catalog =
     JDict [(''browsers'', JList [
       JDict [(''name'', JStr ''Chrome''),
              (''versions'', JList [JStr ''116.0'']),
              (''os'', JList [JDict [(''name'', JStr ''Windows''),
                                     (''versions'', JList [JStr ''10.0''])]])]])]"

definition opera_catalog :: json where
  "opera_catalog =
     JDict [(''browsers'', JList [
       JDict [(''name'', JStr ''Opera''),
              (''versions'', JList [JStr ''99.0'']),
              (''os'', JList [JDict [(''name'', JStr ''Windows''),
                                     (''versions'', JList [JStr ''10.0''])]])]])]"

definition first_draws :: draws where
  "first_draws = \<lparr>browser_draw = 0, version_draw = 0, os_draw = 0, os_version_draw = 0\<rparr>"

definition unreadable_fs :: "string \<Rightarrow> file_state" where
  "unreadable_fs json_file = \<lparr>path_exists = True, readable = False, loaded = Inl PermissionError\<rparr>"

definition no_str :: "json \<Rightarrow> string" where
  "no_str v = []"

subsection \<open>Facts about the string operations\<close>

lemma startswith_iff_prefix: "startswith s p \<longleftrightarrow> prefix p s"
proof
  assume "startswith s p"
  then have "s = p @ drop (length p) s"
    unfolding startswith_def by (metis append_take_drop_id)
  then show "prefix p s" by (metis prefixI)
next
  assume "prefix p s"
  then show "startswith s p"
    unfolding startswith_def by (auto elim: prefixE)
qed

lemma str_count_eq: "str_count s c = count_list s c"
  by (induction s) auto

lemma contains_iff_sublist: "contains s p \<longleftrightarrow> sublist p s"
  by (induction s) (auto simp: startswith_iff_prefix sublist_Cons_right)

lemma str_count_append: "str_count (a @ b) c = str_count a c + str_count b c"
  by (induction a) auto

lemma contains_appendI1: "contains a p \<Longrightarrow> contains (a @ b) p"
  unfolding contains_iff_sublist by (metis sublist_order.order_trans sublist_append_rightI)

lemma contains_appendI2: "contains b p \<Longrightarrow> contains (a @ b) p"
  unfolding contains_iff_sublist by (metis sublist_order.order_trans sublist_append_leftI)

lemma str_count_replace_char:
  "a \<noteq> c \<Longrightarrow> b \<noteq> c \<Longrightarrow> str_count (replace_char s a b) c = str_count s c"
  unfolding replace_char_def by (induction s) auto

subsection \<open>Facts about sequencing and the built-in operations\<close>

lemma and_then_Inr: "and_then (Inr v) f = f v"
  by (simp add: and_then_def)

lemma and_then_Inl: "and_then (Inl e) f = Inl e"
  by (simp add: and_then_def)

lemma reraise_in_hierarchy: "reraise r = Inl e \<Longrightarrow> is_UserAgentError e"
  by (auto simp: reraise_def split: sum.splits if_splits)

lemma contains_char: "contains s [c] \<longleftrightarrow> c \<in> set s"
  by (induction s) (auto simp: startswith_def)

lemma nonempty_list_iff: "\<not> empty_or_not_list v \<longleftrightarrow> (\<exists>xs. v = JList xs \<and> xs \<noteq> [])"
  by (cases v) auto

lemma dict_get_list: "dict_get kvs k = JList xs \<Longrightarrow> map_of kvs k = Some (JList xs)"
  by (auto simp: dict_get_def split: option.splits)

lemma nonempty_list_has_key: "\<not> empty_or_not_list (dict_get kvs k) \<Longrightarrow> has_key kvs k"
  by (auto simp: dict_get_def has_key_def split: option.splits)

lemma case_sum_unit_Inr:
  "(case r of Inl e \<Rightarrow> Inl e | Inr (u::unit) \<Rightarrow> f) = (Inr () :: exn + unit)
     \<longleftrightarrow> r = Inr () \<and> f = Inr ()"
  by (cases r) auto

lemma random_choice_mem: "xs \<noteq> [] \<Longrightarrow> \<exists>x \<in> set xs. random_choice r xs = Inr x"
  by (simp add: random_choice_def)

subsection \<open>Facts about validated catalogs\<close>

lemma validate_os_entries_iff: "validate_os_entries os = Inr () \<longleftrightarrow> list_all os_entry_ok os"
proof (induction os)
  case Nil
  show ?case by simp
next
  case (Cons a os)
  then show ?case by (cases a) (auto dest: nonempty_list_has_key)
qed

lemma validate_browsers_iff: "validate_browsers bs = Inr () \<longleftrightarrow> list_all browser_ok bs"
proof (induction bs)
  case Nil
  show ?case by simp
next
  case (Cons a bs)
  then show ?case
    by (cases a) (auto simp: required_fields_def validate_os_entries_iff case_sum_unit_Inr
        dest: nonempty_list_has_key)
qed

lemma feasible_os_all: "list_all os_entry_ok os \<Longrightarrow> feasible_os os = Inr os"
proof (induction os)
  case Nil
  show ?case by simp
next
  case (Cons a os)
  from Cons.prems obtain kvs where a: "a = JDict kvs" by (cases a) auto
  with Cons.prems obtain vs where "dict_get kvs ''versions'' = JList vs" "vs \<noteq> []"
    by (auto simp: nonempty_list_iff)
  with Cons a show ?case by (simp add: and_then_Inr)
qed

lemma feasible_browsers_all: "list_all browser_ok bs \<Longrightarrow> feasible_browsers bs = Inr bs"
proof (induction bs)
  case Nil
  show ?case by simp
next
  case (Cons a bs)
  from Cons.prems obtain kvs where a: "a = JDict kvs" by (cases a) auto
  with Cons.prems obtain vs os where "dict_get kvs ''versions'' = JList vs" "vs \<noteq> []"
      "dict_get kvs ''os'' = JList os" "os \<noteq> []"
    by (auto simp: nonempty_list_iff)
  with Cons a show ?case by (simp add: and_then_Inr)
qed

lemma validated_selection:
  assumes "validate_json_structure data = Inr ()"
  shows "\<exists>sel. select_entries rnd data = Inr sel"
proof -
  from assms obtain kvs where d: "data = JDict kvs"
    by (cases data) (auto simp: validate_json_structure_def)
  from assms d have k: "has_key kvs ''browsers''"
    and e: "\<not> empty_or_not_list (dict_get kvs ''browsers'')"
    by (auto simp: validate_json_structure_def split: if_splits)
  from e obtain bs where bs: "dict_get kvs ''browsers'' = JList bs" "bs \<noteq> []"
    unfolding nonempty_list_iff by blast
  from assms d k e bs have all: "list_all browser_ok bs"
    by (simp add: validate_json_structure_def validate_browsers_iff)
  from bs obtain b where b: "b \<in> set bs" "random_choice (browser_draw rnd) bs = Inr b"
    using random_choice_mem by blast
  with all have b_ok: "browser_ok b" by (simp add: list_all_iff)
  then obtain bkvs where bk: "b = JDict bkvs" by (cases b) auto
  with b_ok obtain vs os where vs: "dict_get bkvs ''versions'' = JList vs" "vs \<noteq> []"
      and os: "dict_get bkvs ''os'' = JList os" "os \<noteq> []" "list_all os_entry_ok os"
      and bname: "has_key bkvs ''name''"
    by (auto simp: nonempty_list_iff)
  from vs obtain bv where bv: "random_choice (version_draw rnd) vs = Inr bv"
    using random_choice_mem by blast
  from os obtain oi where oi: "oi \<in> set os" "random_choice (os_draw rnd) os = Inr oi"
    using random_choice_mem by blast
  with os have o_ok: "os_entry_ok oi" by (simp add: list_all_iff)
  then obtain okvs where ok: "oi = JDict okvs" by (cases oi) auto
  with o_ok obtain ovs where ovs: "dict_get okvs ''versions'' = JList ovs" "ovs \<noteq> []"
      and oname: "has_key okvs ''name''"
    by (auto simp: nonempty_list_iff)
  from ovs obtain ov where ov: "random_choice (os_version_draw rnd) ovs = Inr ov"
    using random_choice_mem by blast
  from k have ne: "kvs \<noteq> []" by (auto simp: has_key_def)
  from bname obtain name where name: "map_of bkvs ''name'' = Some name"
    by (auto simp: has_key_def)
  from oname obtain os_name where os_name: "map_of okvs ''name'' = Some os_name"
    by (auto simp: has_key_def)
  have "select_entries rnd data = Inr (name, bv, os_name, ov)"
    unfolding select_entries_def d
    using k ne bs(2) dict_get_list [OF bs(1)] feasible_browsers_all [OF all] b(2) bk name
      dict_get_list [OF vs(1)] bv dict_get_list [OF os(1)] os(2) feasible_os_all [OF os(3)]
      oi(2) ok os_name dict_get_list [OF ovs(1)] ov
    by (simp add: and_then_Inr)
  then show ?thesis by blast
qed

subsection \<open>Facts about the templates\<close>

lemma generate_after_selection:
  assumes "select_entries rnd data = Inr (bn, bv, os_name, os_version)"
  shows "generate_user_agent str_of rnd data =
     (case format_user_agent str_of bn bv os_name os_version of
        Inl e \<Rightarrow> Inl (if is_UserAgentError e then e else UserAgentError)
      | Inr ua \<Rightarrow> if validate_user_agent ua then Inr ua else Inl InvalidUserAgentError)"
  using assms
  by (simp add: generate_user_agent_def generate_user_agent_body_def reraise_def and_then_def
      split: sum.splits)

lemma format_user_agent_error:
  "format_user_agent str_of bn bv os_name os_version = Inl e \<Longrightarrow> e = UserAgentError"
  by (auto simp: format_user_agent_def get_os_string_def and_then_def split: sum.splits if_splits)

lemma validate_user_agent_startswith:
  "validate_user_agent ua \<Longrightarrow> startswith ua ''Mozilla/5.0''"
  by (simp add: validate_user_agent_def split: if_splits)

lemma validate_user_agentI:
  assumes "startswith ua ''Mozilla/5.0''"
    and "str_count ua CHR ''('' = str_count ua CHR '')''"
    and "30 \<le> length ua"
    and "\<exists>p \<in> set browser_patterns. contains ua p"
    and "\<exists>p \<in> set os_patterns. contains ua p"
  shows "validate_user_agent ua"
  using assms by (simp add: validate_user_agent_def list_ex_iff)

lemma recognised_os_string:
  assumes "os_name \<in> {JStr ''Windows'', JStr ''Mac OS'', JStr ''Linux''}"
  shows "\<exists>s. get_os_string os_name (JStr v) = Inr s
     \<and> str_count s CHR ''('' = str_count v CHR ''(''
     \<and> str_count s CHR '')'' = str_count v CHR '')''
     \<and> (\<exists>p \<in> set os_patterns. contains s p)"
proof -
  have w: "contains (''Windows NT '' @ v @ ''; Win64; x64'') ''Windows''"
    by (simp add: startswith_def)
  have m: "contains (''Macintosh; Intel Mac OS X '' @ w) ''Mac OS X''" for w
    by (simp add: startswith_def)
  have l: "contains (''X11; Linux '' @ v) ''X11''"
    by (simp add: startswith_def)
  from assms consider "os_name = JStr ''Windows''" | "os_name = JStr ''Mac OS''"
    | "os_name = JStr ''Linux''" by blast
  then show ?thesis
  proof cases
    case 1
    with w show ?thesis
      by (simp add: get_os_string_def os_patterns_def str_count_append)
  next
    case 2
    with m show ?thesis
      by (simp add: get_os_string_def os_patterns_def str_count_append str_count_replace_char)
  next
    case 3
    with l show ?thesis
      by (simp add: get_os_string_def os_patterns_def str_count_append)
  qed
qed

lemma recognised_format_valid:
  assumes "recognised str_of (bn, bv, os_name, os_version)"
  shows "\<exists>ua. format_user_agent str_of bn bv os_name os_version = Inr ua \<and> validate_user_agent ua"
proof -
  let ?t = "format_value str_of bv"
  from assms have bal_os: "balanced_str os_version"
      and bal_t: "str_count ?t CHR ''('' = str_count ?t CHR '')''"
      and os: "os_name \<in> {JStr ''Windows'', JStr ''Mac OS'', JStr ''Linux''}"
      and bn: "bn \<in> {JStr ''Chrome'', JStr ''Firefox'', JStr ''Safari'', JStr ''Edge''}"
    unfolding recognised_def by auto
  from bal_os obtain v where v: "os_version = JStr v"
      and bal_v: "str_count v CHR ''('' = str_count v CHR '')''"
    by (cases os_version) auto
  from recognised_os_string [OF os, of v] obtain s p where s: "get_os_string os_name (JStr v) = Inr s"
      and open_s: "str_count s CHR ''('' = str_count v CHR ''(''"
      and close_s: "str_count s CHR '')'' = str_count v CHR '')''"
      and p: "p \<in> set os_patterns" "contains s p"
    by blast
  have os_in: "\<exists>p \<in> set os_patterns. contains (''Mozilla/5.0 ('' @ s @ rest) p" for rest
    using p by (blast intro: contains_appendI1 contains_appendI2)
  from bn consider "bn = JStr ''Chrome''" | "bn = JStr ''Firefox''" | "bn = JStr ''Safari''"
    | "bn = JStr ''Edge''" by blast
  then show ?thesis
  proof cases
    case 1
    let ?ua = "''Mozilla/5.0 ('' @ s @ '') AppleWebKit/537.36 (KHTML, like Gecko) Chrome/'' @ ?t @ '' Safari/537.36''"
    have "contains ('') AppleWebKit/537.36 (KHTML, like Gecko) Chrome/'' @ ?t @ '' Safari/537.36'') ''Chrome''"
      by (rule contains_appendI1) (simp add: startswith_def)
    then have "contains ?ua ''Chrome''"
      by (rule contains_appendI2 [OF contains_appendI2])
    then have "\<exists>p \<in> set browser_patterns. contains ?ua p"
      by (simp add: browser_patterns_def)
    moreover have "startswith ?ua ''Mozilla/5.0''" by (simp add: startswith_def)
    moreover have "str_count ?ua CHR ''('' = str_count ?ua CHR '')''"
      using open_s close_s bal_v bal_t by (simp add: str_count_append)
    moreover have "30 \<le> length ?ua" by simp
    ultimately have "validate_user_agent ?ua"
      using os_in by (intro validate_user_agentI)
    moreover have "format_user_agent str_of bn bv os_name os_version = Inr ?ua"
      using 1 s v by (simp add: format_user_agent_def and_then_def)
    ultimately show ?thesis by blast
  next
    case 2
    let ?ua = "''Mozilla/5.0 ('' @ s @ ''; rv:'' @ ?t @ '') Gecko/20100101 Firefox/'' @ ?t"
    have "contains ('') Gecko/20100101 Firefox/'' @ ?t) ''Firefox''"
      by (rule contains_appendI1) (simp add: startswith_def)
    then have "contains ?ua ''Firefox''"
      by (rule contains_appendI2 [OF contains_appendI2 [OF contains_appendI2 [OF contains_appendI2]]])
    then have "\<exists>p \<in> set browser_patterns. contains ?ua p"
      by (simp add: browser_patterns_def)
    moreover have "startswith ?ua ''Mozilla/5.0''" by (simp add: startswith_def)
    moreover have "str_count ?ua CHR ''('' = str_count ?ua CHR '')''"
      using open_s close_s bal_v bal_t by (simp add: str_count_append)
    moreover have "30 \<le> length ?ua" by simp
    ultimately have "validate_user_agent ?ua"
      using os_in by (intro validate_user_agentI)
    moreover have "format_user_agent str_of bn bv os_name os_version = Inr ?ua"
      using 2 s v by (simp add: format_user_agent_def and_then_def)
    ultimately show ?thesis by blast
  next
    case 3
    let ?ua = "''Mozilla/5.0 ('' @ s @ '') AppleWebKit/605.1.15 (KHTML, like Gecko) Version/'' @ ?t @ '' Safari/605.1.15''"
    have "contains ('') AppleWebKit/605.1.15 (KHTML, like Gecko) Version/'' @ ?t @ '' Safari/605.1.15'') ''Safari''"
      by (rule contains_appendI2 [OF contains_appendI2]) (simp add: startswith_def)
    then have "contains ?ua ''Safari''"
      by (rule contains_appendI2 [OF contains_appendI2])
    then have "\<exists>p \<in> set browser_patterns. contains ?ua p"
      by (simp add: browser_patterns_def)
    moreover have "startswith ?ua ''Mozilla/5.0''" by (simp add: startswith_def)
    moreover have "str_count ?ua CHR ''('' = str_count ?ua CHR '')''"
      using open_s close_s bal_v bal_t by (simp add: str_count_append)
    moreover have "30 \<le> length ?ua" by simp
    ultimately have "validate_user_agent ?ua"
      using os_in by (intro validate_user_agentI)
    moreover have "format_user_agent str_of bn bv os_name os_version = Inr ?ua"
      using 3 s v by (simp add: format_user_agent_def and_then_def)
    ultimately show ?thesis by blast
  next
    case 4
    let ?ua = "''Mozilla/5.0 ('' @ s @ '') AppleWebKit/537.36 (KHTML, like Gecko) Edg/'' @ ?t"
    have "contains ('') AppleWebKit/537.36 (KHTML, like Gecko) Edg/'' @ ?t) ''Edg''"
      by (rule contains_appendI1) (simp add: startswith_def)
    then have "contains ?ua ''Edg''"
      by (rule contains_appendI2 [OF contains_appendI2])
    then have "\<exists>p \<in> set browser_patterns. contains ?ua p"
      by (simp add: browser_patterns_def)
    moreover have "startswith ?ua ''Mozilla/5.0''" by (simp add: startswith_def)
    moreover have "str_count ?ua CHR ''('' = str_count ?ua CHR '')''"
      using open_s close_s bal_v bal_t by (simp add: str_count_append)
    moreover have "30 \<le> length ?ua" by simp
    ultimately have "validate_user_agent ?ua"
      using os_in by (intro validate_user_agentI)
    moreover have "format_user_agent str_of bn bv os_name os_version = Inr ?ua"
      using 4 s v by (simp add: format_user_agent_def and_then_def)
    ultimately show ?thesis by blast
  qed
qed

text \<open>The example inputs, evaluated.\<close>

lemma chrome_catalog_valid: "validate_json_structure chrome_catalog = Inr ()"
  by (simp add: chrome_catalog_def validate_json_structure_def required_fields_def
      has_key_def dict_get_def)

lemma chrome_catalog_selection:
  "select_entries first_draws chrome_catalog =
     Inr (JStr ''Chrome'', JStr ''116.0'', JStr ''Windows'', JStr ''10.0'')"
  by (simp add: chrome_catalog_def first_draws_def select_entries_def and_then_def
      has_key_def dict_get_def random_choice_def)

lemma opera_catalog_valid: "validate_json_structure opera_catalog = Inr ()"
  by (simp add: opera_catalog_def validate_json_structure_def required_fields_def
      has_key_def dict_get_def)

lemma opera_catalog_selection:
  "select_entries first_draws opera_catalog =
     Inr (JStr ''Opera'', JStr ''99.0'', JStr ''Windows'', JStr ''10.0'')"
  by (simp add: opera_catalog_def first_draws_def select_entries_def and_then_def
      has_key_def dict_get_def random_choice_def)

section \<open>The claims\<close>

subsection \<open>C1: generation on a validated catalog\<close>

text \<open>
  C1, as amended. For every catalog that passes load-time validation
  (\<^verbatim>\<open>validate_json_structure\<close> raises nothing) and for every four draws, the
  generator selects a browser, a browser version, an OS and an OS version (it never
  fails with the empty-data condition), and \<^verbatim>\<open>generate_user_agent\<close> either returns
  a string that starts with \<open>Mozilla/5.0\<close> and for which \<^verbatim>\<open>validate_user_agent\<close>
  returns True, or fails with the invalid-generated-output error or with the base
  user-agent error. It returns such a string whenever the selection is recognised: the
  browser is Chrome, Firefox, Safari or Edge, the OS is Windows, Mac OS or Linux, and
  the two versions are written with as many \<open>(\<close> as \<open>)\<close>, the OS version being a
  str.
\<close>

theorem generate_on_validated_catalog:
  assumes "validate_json_structure data = Inr ()"
  shows "\<exists>sel. select_entries rnd data = Inr sel
     \<and> (case generate_user_agent str_of rnd data of
          Inr user_agent \<Rightarrow> startswith user_agent ''Mozilla/5.0'' \<and> validate_user_agent user_agent
        | Inl e \<Rightarrow> e = InvalidUserAgentError \<or> e = UserAgentError)
     \<and> (recognised str_of sel \<longrightarrow> (\<exists>user_agent. generate_user_agent str_of rnd data = Inr user_agent))"
proof -
  from validated_selection [OF assms] obtain bn bv os_name os_version
    where sel: "select_entries rnd data = Inr (bn, bv, os_name, os_version)"
    by (metis prod_cases4)
  note gen = generate_after_selection [OF sel, of str_of]
  have "case generate_user_agent str_of rnd data of
          Inr user_agent \<Rightarrow> startswith user_agent ''Mozilla/5.0'' \<and> validate_user_agent user_agent
        | Inl e \<Rightarrow> e = InvalidUserAgentError \<or> e = UserAgentError"
    unfolding gen
    by (auto split: sum.splits dest: format_user_agent_error validate_user_agent_startswith)
  moreover have "\<exists>user_agent. generate_user_agent str_of rnd data = Inr user_agent"
    if "recognised str_of (bn, bv, os_name, os_version)"
    using recognised_format_valid [OF that] unfolding gen by auto
  ultimately show ?thesis using sel by blast
qed

text \<open>
  The theorem at the Chrome catalog: the catalog is valid, the selection is recognised,
  and the generator returns a string that passes the five checks.
\<close>

theorem generate_on_validated_catalog_witness:
  "validate_json_structure chrome_catalog = Inr ()
   \<and> recognised no_str (JStr ''Chrome'', JStr ''116.0'', JStr ''Windows'', JStr ''10.0'')
   \<and> (\<exists>user_agent. generate_user_agent no_str first_draws chrome_catalog = Inr user_agent
         \<and> startswith user_agent ''Mozilla/5.0'' \<and> validate_user_agent user_agent)"
proof -
  have r: "recognised no_str (JStr ''Chrome'', JStr ''116.0'', JStr ''Windows'', JStr ''10.0'')"
    by (simp add: recognised_def format_value_def)
  from generate_on_validated_catalog [OF chrome_catalog_valid, of first_draws no_str] r
  show ?thesis
    by (auto simp: chrome_catalog_selection chrome_catalog_valid split: sum.splits)
qed

text \<open>
  C1 as stated fails at the Opera catalog: the catalog passes validation, the name
  Opera takes the fallback template, the formatted string holds none of the browser
  patterns, and the generator raises the invalid-generated-output error.
\<close>

theorem generate_on_validated_catalog_counterexample:
  "validate_json_structure opera_catalog = Inr ()
   \<and> generate_user_agent no_str first_draws opera_catalog = Inl InvalidUserAgentError"
  by (simp add: opera_catalog_valid generate_after_selection [OF opera_catalog_selection]
      format_user_agent_def get_os_string_def and_then_def format_value_def
      validate_user_agent_def startswith_def browser_patterns_def os_patterns_def)

subsection \<open>C2: the two Mac OS examples\<close>

text \<open>
  C2, as amended. \<^verbatim>\<open>get_os_string\<close> applied to the OS name \<open>Mac OS\<close> returns
  \<open>Macintosh; Intel Mac OS X 10_15_7\<close> for the version \<open>10_15_7\<close> and
  \<open>Macintosh; Intel Mac OS X 10_15\<close> for the version \<open>10.15\<close>.
\<close>

theorem mac_os_examples:
  "get_os_string (JStr ''Mac OS'') (JStr ''10_15_7'') = Inr ''Macintosh; Intel Mac OS X 10_15_7''
   \<and> get_os_string (JStr ''Mac OS'') (JStr ''10.15'') = Inr ''Macintosh; Intel Mac OS X 10_15''"
  by (simp add: get_os_string_def startswith_def replace_char_def)

text \<open>
  C2 as stated fails at the version \<open>10.15\<close>: the result is not
  \<open>Macintosh; Intel Mac OS X 10_15_7\<close>.
\<close>

theorem mac_os_examples_counterexample:
  "get_os_string (JStr ''Mac OS'') (JStr ''10.15'') \<noteq> Inr ''Macintosh; Intel Mac OS X 10_15_7''"
  by (simp add: get_os_string_def startswith_def replace_char_def)

subsection \<open>C3: a file that cannot be read\<close>

text \<open>
  C3, as amended. When the file exists but is not readable, the body of
  \<^verbatim>\<open>load_user_agents\<close> raises Python's built-in \<^verbatim>\<open>PermissionError\<close>, which is not
  a class of the user-agent error hierarchy, and the handler re-raises it as the base
  user-agent error: loading fails with the generic error, not with a permission-denied
  refinement of it.
\<close>

theorem unreadable_file_is_generic_error:
  assumes "path_exists (fs json_file)" and "\<not> readable (fs json_file)"
  shows "load_user_agents_body fs json_file = Inl PermissionError
     \<and> \<not> is_UserAgentError PermissionError
     \<and> load_user_agents fs json_file = Inl UserAgentError"
  using assms by (simp add: load_user_agents_def load_user_agents_body_def reraise_def)

theorem unreadable_file_is_generic_error_witness:
  "path_exists (unreadable_fs ''user_agents.json'')
   \<and> \<not> readable (unreadable_fs ''user_agents.json'')
   \<and> load_user_agents unreadable_fs ''user_agents.json'' = Inl UserAgentError"
  using unreadable_file_is_generic_error [of unreadable_fs "''user_agents.json''"]
  by (simp add: unreadable_fs_def)

text \<open>
  C3 as stated fails at a file that exists and cannot be read: the error raised is the
  base class itself, so it is no refinement of the base class, and it is not the
  permission error.
\<close>

theorem unreadable_file_counterexample:
  "load_user_agents unreadable_fs ''user_agents.json'' = Inl UserAgentError
   \<and> load_user_agents unreadable_fs ''user_agents.json'' \<noteq> Inl PermissionError"
  by (simp add: load_user_agents_def load_user_agents_body_def reraise_def unreadable_fs_def)

subsection \<open>C4: Chrome 116.0 on Windows 10.0\<close>

text \<open>
  C4. When the selection is browser name \<open>Chrome\<close>, browser version \<open>116.0\<close>, OS name
  \<open>Windows\<close> and OS version \<open>10.0\<close>, \<^verbatim>\<open>generate_user_agent\<close> returns exactly
  \<open>Mozilla/5.0 (Windows NT 10.0; Win64; x64) AppleWebKit/537.36 (KHTML, like Gecko) Chrome/116.0 Safari/537.36\<close>.
\<close>

theorem chrome_on_windows:
  assumes "select_entries rnd data =
     Inr (JStr ''Chrome'', JStr ''116.0'', JStr ''Windows'', JStr ''10.0'')"
  shows "generate_user_agent str_of rnd data =
     Inr ''Mozilla/5.0 (Windows NT 10.0; Win64; x64) AppleWebKit/537.36 (KHTML, like Gecko) Chrome/116.0 Safari/537.36''"
  by (simp add: generate_after_selection [OF assms] format_user_agent_def get_os_string_def
      and_then_def format_value_def validate_user_agent_def startswith_def
      browser_patterns_def os_patterns_def)

theorem chrome_on_windows_witness:
  "generate_user_agent no_str first_draws chrome_catalog =
     Inr ''Mozilla/5.0 (Windows NT 10.0; Win64; x64) AppleWebKit/537.36 (KHTML, like Gecko) Chrome/116.0 Safari/537.36''"
  by (rule chrome_on_windows [OF chrome_catalog_selection])

subsection \<open>C5: the OS descriptor of each family\<close>

text \<open>
  C5, as amended. For every str \<open>os_name\<close> and \<open>os_version\<close>, \<^verbatim>\<open>get_os_string\<close>
  returns \<open>Windows NT {version}; Win64; x64\<close> for the name \<open>Windows\<close>;
  \<open>Macintosh; Intel Mac OS X {version'}\<close> for the name \<open>Mac OS\<close>, where \<open>version'\<close>
  is the version as it is when it holds an underscore and its underscore form
  otherwise; \<open>X11; Linux {version}\<close> for the name \<open>Linux\<close>; and \<open>{name} {version}\<close>
  for any other name.
\<close>

theorem get_os_string_families:
  "get_os_string (JStr os_name) (JStr os_version) =
     Inr (if os_name = ''Windows'' then ''Windows NT '' @ os_version @ ''; Win64; x64''
          else if os_name = ''Mac OS'' then
            ''Macintosh; Intel Mac OS X '' @
              (if CHR ''_'' \<in> set os_version then os_version else underscore_form os_version)
          else if os_name = ''Linux'' then ''X11; Linux '' @ os_version
          else os_name @ '' '' @ os_version)"
  by (simp add: get_os_string_def contains_char replace_char_def underscore_form_def)

text \<open>
  C5 as stated fails at the Mac OS version \<open>10.15_7\<close>: it holds an underscore, so it
  is written as it is, with its dot, and not in underscore form.
\<close>

theorem get_os_string_families_counterexample:
  "get_os_string (JStr ''Mac OS'') (JStr ''10.15_7'')
     \<noteq> Inr (''Macintosh; Intel Mac OS X '' @ underscore_form ''10.15_7'')"
  by (simp add: get_os_string_def startswith_def underscore_form_def)

subsection \<open>C6: the five checks\<close>

text \<open>
  C6. \<^verbatim>\<open>validate_user_agent\<close> returns True if and only if its input starts with
  \<open>Mozilla/5.0\<close>, holds as many \<open>(\<close> as \<open>)\<close>, is at least 30 characters long, holds
  one of \<open>Chrome\<close>, \<open>Firefox\<close>, \<open>Safari\<close>, \<open>Edg\<close> as a substring, and holds one of
  \<open>Windows\<close>, \<open>Mac OS X\<close>, \<open>Linux\<close>, \<open>X11\<close> as a substring.
\<close>

theorem validate_user_agent_iff:
  "validate_user_agent user_agent \<longleftrightarrow>
     prefix ''Mozilla/5.0'' user_agent
     \<and> count_list user_agent CHR ''('' = count_list user_agent CHR '')''
     \<and> 30 \<le> length user_agent
     \<and> (\<exists>p \<in> {''Chrome'', ''Firefox'', ''Safari'', ''Edg''}. sublist p user_agent)
     \<and> (\<exists>p \<in> {''Windows'', ''Mac OS X'', ''Linux'', ''X11''}. sublist p user_agent)"
  unfolding validate_user_agent_def browser_patterns_def os_patterns_def
  by (simp add: startswith_iff_prefix str_count_eq contains_iff_sublist not_less
      del: count_list.simps)

subsection \<open>C7: a single browser with an empty OS list\<close>

text \<open>
  C7. For every catalog whose browsers list holds exactly one browser, whose \<open>os\<close>
  list is empty, \<^verbatim>\<open>generate_user_agent\<close> fails with the empty-data error.
\<close>

theorem empty_os_list_is_empty_data:
  assumes "map_of kvs ''browsers'' = Some (JList [JDict browser])"
    and "map_of browser ''os'' = Some (JList [])"
  shows "generate_user_agent str_of rnd (JDict kvs) = Inl EmptyDataError"
proof -
  from assms(1) have "kvs \<noteq> []" by auto
  with assms show ?thesis
    by (simp add: generate_user_agent_def generate_user_agent_body_def select_entries_def
        and_then_def has_key_def dict_get_def reraise_def)
qed

theorem empty_os_list_is_empty_data_witness:
  "generate_user_agent no_str first_draws
     (JDict [(''browsers'', JList [JDict [(''name'', JStr ''Chrome''),
                                           (''versions'', JList [JStr ''116.0'']),
                                           (''os'', JList [])]])])
   = Inl EmptyDataError"
  by (rule empty_os_list_is_empty_data
        [where browser = "[(''name'', JStr ''Chrome''), (''versions'', JList [JStr ''116.0'']),
                           (''os'', JList [])]"]) simp_all

subsection \<open>C8: a catalog without browsers\<close>

text \<open>
  C8. Loading a file that parses to a dict without the key \<open>browsers\<close>, or with an
  empty list under it, fails with the malformed-format error.
\<close>

theorem load_missing_or_empty_browsers:
  assumes "path_exists (fs json_file)" and "readable (fs json_file)"
    and "loaded (fs json_file) = Inr (JDict kvs)"
    and "map_of kvs ''browsers'' = None \<or> map_of kvs ''browsers'' = Some (JList [])"
  shows "load_user_agents fs json_file = Inl InvalidJSONFormatError"
  using assms
  by (auto simp: load_user_agents_def load_user_agents_body_def and_then_def
      validate_json_structure_def has_key_def dict_get_def reraise_def)

theorem load_missing_or_empty_browsers_witness:
  "load_user_agents
     (\<lambda>p. \<lparr>path_exists = True, readable = True, loaded = Inr (JDict [(''version'', JInt 1)])\<rparr>)
     ''user_agents.json'' = Inl InvalidJSONFormatError
   \<and> load_user_agents
     (\<lambda>p. \<lparr>path_exists = True, readable = True, loaded = Inr (JDict [(''browsers'', JList [])])\<rparr>)
     ''user_agents.json'' = Inl InvalidJSONFormatError"
proof
  show "load_user_agents
     (\<lambda>p. \<lparr>path_exists = True, readable = True, loaded = Inr (JDict [(''version'', JInt 1)])\<rparr>)
     ''user_agents.json'' = Inl InvalidJSONFormatError"
    by (rule load_missing_or_empty_browsers [where kvs = "[(''version'', JInt 1)]"]) simp_all
  show "load_user_agents
     (\<lambda>p. \<lparr>path_exists = True, readable = True, loaded = Inr (JDict [(''browsers'', JList [])])\<rparr>)
     ''user_agents.json'' = Inl InvalidJSONFormatError"
    by (rule load_missing_or_empty_browsers [where kvs = "[(''browsers'', JList [])]"]) simp_all
qed

subsection \<open>C9: parentheses are counted, not matched\<close>

text \<open>
  C9. The parentheses check of \<^verbatim>\<open>validate_user_agent\<close> compares the count of \<open>(\<close>
  with the count of \<open>)\<close> and nothing else about them: every string whose two counts
  differ is rejected, and there is a string in which a \<open>)\<close> stands before any \<open>(\<close>
  that is accepted, its two counts being equal and the other four checks passing (it
  starts with \<open>Mozilla/5.0\<close>, is at least 30 characters long, and holds a browser
  pattern and an OS pattern).
\<close>

theorem misordered_parentheses_accepted:
  "(\<forall>s. count_list s CHR ''('' \<noteq> count_list s CHR '')'' \<longrightarrow> \<not> validate_user_agent s)
   \<and> (\<exists>user_agent pre post.
         validate_user_agent user_agent
         \<and> user_agent = pre @ CHR '')'' # post
         \<and> CHR ''('' \<notin> set pre \<and> CHR ''('' \<in> set post
         \<and> count_list user_agent CHR ''('' = count_list user_agent CHR '')''
         \<and> prefix ''Mozilla/5.0'' user_agent
         \<and> 30 \<le> length user_agent
         \<and> (\<exists>p \<in> set browser_patterns. sublist p user_agent)
         \<and> (\<exists>p \<in> set os_patterns. sublist p user_agent))"
proof
  show "\<forall>s. count_list s CHR ''('' \<noteq> count_list s CHR '')'' \<longrightarrow> \<not> validate_user_agent s"
    by (simp add: validate_user_agent_def str_count_eq del: count_list.simps)
next
  let ?pre = "''Mozilla/5.0 ''"
  let ?post = "''Windows NT 10.0( Chrome/116.0''"
  let ?ua = "?pre @ CHR '')'' # ?post"
  have v: "validate_user_agent ?ua"
    by (simp add: validate_user_agent_def startswith_def browser_patterns_def os_patterns_def)
  have c: "count_list ?ua CHR ''('' = count_list ?ua CHR '')''"
    using v by (simp add: validate_user_agent_def str_count_eq del: count_list.simps split: if_splits)
  have p: "prefix ''Mozilla/5.0'' ?ua"
    using v by (simp only: validate_user_agent_startswith startswith_iff_prefix [symmetric])
  have l: "30 \<le> length ?ua" by simp
  have b: "\<exists>p \<in> set browser_patterns. sublist p ?ua"
    using v unfolding validate_user_agent_def list_ex_iff contains_iff_sublist
    by (simp only: split: if_splits)
  have os: "\<exists>p \<in> set os_patterns. sublist p ?ua"
    using v unfolding validate_user_agent_def list_ex_iff contains_iff_sublist
    by (simp only: split: if_splits)
  have "CHR ''('' \<notin> set ?pre" by simp
  moreover have "CHR ''('' \<in> set ?post" by simp
  ultimately show "\<exists>user_agent pre post.
         validate_user_agent user_agent
         \<and> user_agent = pre @ CHR '')'' # post
         \<and> CHR ''('' \<notin> set pre \<and> CHR ''('' \<in> set post
         \<and> count_list user_agent CHR ''('' = count_list user_agent CHR '')''
         \<and> prefix ''Mozilla/5.0'' user_agent
         \<and> 30 \<le> length user_agent
         \<and> (\<exists>p \<in> set browser_patterns. sublist p user_agent)
         \<and> (\<exists>p \<in> set os_patterns. sublist p user_agent)"
    using v c p l b os by blast
qed

text \<open>
  The theorem at a string with one \<open>(\<close> and no \<open>)\<close>, which passes the other four
  checks: it is rejected.
\<close>

theorem misordered_parentheses_accepted_witness:
  "count_list ''Mozilla/5.0 (Windows NT 10.0 Chrome/116.0'' CHR ''(''
     \<noteq> count_list ''Mozilla/5.0 (Windows NT 10.0 Chrome/116.0'' CHR '')''
   \<and> \<not> validate_user_agent ''Mozilla/5.0 (Windows NT 10.0 Chrome/116.0''"
proof -
  have c: "count_list ''Mozilla/5.0 (Windows NT 10.0 Chrome/116.0'' CHR ''(''
     \<noteq> count_list ''Mozilla/5.0 (Windows NT 10.0 Chrome/116.0'' CHR '')''"
    by simp
  with misordered_parentheses_accepted show ?thesis by blast
qed

subsection \<open>C10: every error is a user-agent error\<close>

text \<open>
  C10. Every exception \<^verbatim>\<open>load_user_agents\<close> and \<^verbatim>\<open>generate_user_agent\<close> raise
  is a \<^verbatim>\<open>UserAgentError\<close>: an exception of the body that is one already is raised as
  it is, any other is raised as the base \<^verbatim>\<open>UserAgentError\<close>.
\<close>

theorem errors_in_hierarchy:
  "(\<forall>e. load_user_agents fs json_file = Inl e \<longrightarrow> is_UserAgentError e)
   \<and> (\<forall>e. generate_user_agent str_of rnd data = Inl e \<longrightarrow> is_UserAgentError e)
   \<and> (\<forall>e. load_user_agents_body fs json_file = Inl e \<longrightarrow>
         load_user_agents fs json_file = Inl (if is_UserAgentError e then e else UserAgentError))
   \<and> (\<forall>e. generate_user_agent_body str_of rnd data = Inl e \<longrightarrow>
         generate_user_agent str_of rnd data = Inl (if is_UserAgentError e then e else UserAgentError))"
  by (auto simp: load_user_agents_def generate_user_agent_def reraise_def
      split: sum.splits if_splits)

text \<open>
  The theorem at a file that cannot be read (the body raises \<^verbatim>\<open>PermissionError\<close>) and
  at a catalog whose browsers are the number 5 (the body raises \<^verbatim>\<open>TypeError\<close>).
\<close>

theorem errors_in_hierarchy_witness:
  "load_user_agents_body unreadable_fs ''user_agents.json'' = Inl PermissionError
   \<and> load_user_agents unreadable_fs ''user_agents.json'' = Inl UserAgentError
   \<and> generate_user_agent_body no_str first_draws (JDict [(''browsers'', JInt 5)]) = Inl TypeError
   \<and> generate_user_agent no_str first_draws (JDict [(''browsers'', JInt 5)]) = Inl UserAgentError
   \<and> is_UserAgentError UserAgentError"
proof -
  have l: "load_user_agents_body unreadable_fs ''user_agents.json'' = Inl PermissionError"
    by (simp add: load_user_agents_body_def unreadable_fs_def)
  have g: "generate_user_agent_body no_str first_draws (JDict [(''browsers'', JInt 5)]) = Inl TypeError"
    by (simp add: generate_user_agent_body_def select_entries_def and_then_def has_key_def)
  from errors_in_hierarchy [of unreadable_fs "''user_agents.json''" no_str first_draws
      "JDict [(''browsers'', JInt 5)]"] l g
  show ?thesis by simp
qed

end
